theory Spec2Isabelle
  imports Complex_Main
begin

section \<open>Trainer assignment (generateWorkoutPlan)\<close>

text \<open>
  Both versions of \<open>generateWorkoutPlan\<close> start from the same table of three trainers.
  Names and specialty tags are the string literals of the source.
\<close>

record trainer =
  name :: string
  specialties :: "string list"

definition allTrainers :: "trainer list" where
  "allTrainers =
     [\<lparr>name = ''Athul'', specialties = [''Weight Loss'', ''Lean Body'']\<rparr>,
      \<lparr>name = ''Athithiya'', specialties = [''Lean Body'', ''Bodybuilding'']\<rparr>,
      \<lparr>name = ''Saieel'', specialties = [''Weight Loss'', ''Bodybuilding'']\<rparr>]"

definition trainerNames :: "string set" where
  "trainerNames = {''Athul'', ''Athithiya'', ''Saieel''}"

subsection \<open>Looking up the goal\<close>

text \<open>
  \<open>goalToSpecialtyMap\<close> is a plain object literal, so \<open>goalToSpecialtyMap[userGoal]\<close>
  yields the string of an own key, a member of \<open>Object.prototype\<close> for an inherited key
  (a function or object, never a string), and \<open>undefined\<close> for every other key.
\<close>

datatype js_value = JsNull | JsUndefined | JsString string | JsInherited

definition objectPrototypeKeys :: "string list" where
  "objectPrototypeKeys =
     [''constructor'', ''__defineGetter__'', ''__defineSetter__'', ''hasOwnProperty'',
      ''__lookupGetter__'', ''__lookupSetter__'', ''isPrototypeOf'', ''propertyIsEnumerable'',
      ''toString'', ''valueOf'', ''__proto__'', ''toLocaleString'']"

definition goalToSpecialtyMap :: "string \<Rightarrow> js_value" where
  "goalToSpecialtyMap g =
     (if g = ''lose_weight'' then JsString ''Weight Loss''
      else if g = ''gain_muscle'' then JsString ''Bodybuilding''
      else if g = ''get_shredded'' then JsString ''Lean Body''
      else if g \<in> set objectPrototypeKeys then JsInherited
      else JsUndefined)"

text \<open>
  \<open>userGoal = quizData?.goal\<close> is absent (\<open>None\<close>) when \<open>quizData\<close> is null or has no
  goal. \<open>targetSpecialty = userGoal ? goalToSpecialtyMap[userGoal] : null\<close>: the empty
  string is falsy as well.
\<close>

definition targetSpecialty :: "string option \<Rightarrow> js_value" where
  "targetSpecialty userGoal =
     (case userGoal of
        None \<Rightarrow> JsNull
      | Some g \<Rightarrow> if g = [] then JsNull else goalToSpecialtyMap g)"

fun truthy :: "js_value \<Rightarrow> bool" where
  "truthy JsNull = False"
| "truthy JsUndefined = False"
| "truthy (JsString s) = (s \<noteq> [])"
| "truthy JsInherited = True"

text \<open>\<open>specialties.includes(v)\<close> compares with strict equality: only a string can be found.\<close>

fun js_includes :: "string list \<Rightarrow> js_value \<Rightarrow> bool" where
  "js_includes xs (JsString s) = (s \<in> set xs)"
| "js_includes xs v = False"

subsection \<open>The weighted pool and the draw\<close>

definition specialistWeight :: nat where
  "specialistWeight = 5"

definition generalistWeight :: nat where
  "generalistWeight = 1"

text \<open>
  The \<open>forEach\<close> loop pushes each trainer's name \<open>weight\<close> times, in table order.
\<close>

definition weightedPool :: "js_value \<Rightarrow> string list" where
  "weightedPool target =
     concat (map (\<lambda>t. replicate
                    (if js_includes (specialties t) target then specialistWeight
                     else generalistWeight)
                    (name t))
               allTrainers)"

text \<open>
  Reading an array at an index outside its bounds gives \<open>undefined\<close>, here \<open>None\<close>.
\<close>

definition js_index :: "'a list \<Rightarrow> int \<Rightarrow> 'a option" where
  "js_index xs i = (if 0 \<le> i \<and> i < int (length xs) then Some (xs ! nat i) else None)"

text \<open>
  \<open>pool[Math.floor(Math.random() * pool.length)]\<close>, with the value \<open>r\<close> of
  \<open>Math.random()\<close> passed in. Numbers are modelled as reals: rounding of the product
  in double precision is not modelled.
\<close>

definition randomDraw :: "string list \<Rightarrow> real \<Rightarrow> string option" where
  "randomDraw pool r = js_index pool \<lfloor>r * real (length pool)\<rfloor>"

text \<open>
  The pool the draw is made from in the version with the weighted assignment:
  the weighted pool when \<open>targetSpecialty\<close> is truthy, all names otherwise.
\<close>

definition smartPool :: "string option \<Rightarrow> string list" where
  "smartPool userGoal =
     (if truthy (targetSpecialty userGoal) then weightedPool (targetSpecialty userGoal)
      else map name allTrainers)"

definition smartTrainerAssignment :: "string option \<Rightarrow> real \<Rightarrow> string option" where
  "smartTrainerAssignment userGoal r = randomDraw (smartPool userGoal) r"

text \<open>
  The version in \<open>services/geminiService.ts\<close> ("Simple assignment for brevity") draws from
  the names of all trainers whatever \<open>quizData\<close> holds.
\<close>

definition simplePool :: "string option \<Rightarrow> string list" where
  "simplePool userGoal = map name allTrainers"

definition simpleTrainerAssignment :: "string option \<Rightarrow> real \<Rightarrow> string option" where
  "simpleTrainerAssignment userGoal r = randomDraw (simplePool userGoal) r"

text \<open>
  The name in \<open>assigned_trainer\<close> of the response of the version with the weighted
  assignment: the drawn name when the rest of the \<open>try\<close> block succeeds, the placeholder
  \<open>"Athul"\<close> of the \<open>catch\<close> block otherwise.
\<close>

definition assignedTrainerOfResponse :: "string option \<Rightarrow> real \<Rightarrow> bool \<Rightarrow> string option" where
  "assignedTrainerOfResponse userGoal r planGenerated =
     (if planGenerated then smartTrainerAssignment userGoal r else Some ''Athul'')"

text \<open>
  With \<open>r\<close> uniform on \<open>[0, 1)\<close> every slot of the pool is hit on an interval of width
  \<open>1 / length pool\<close> (lemma \<open>slot_interval\<close> below), so a name is drawn with probability
  (number of its slots) / (length of the pool).
\<close>

definition drawProbability :: "string list \<Rightarrow> string \<Rightarrow> real" where
  "drawProbability pool n = real (count_list pool n) / real (length pool)"

section \<open>The assessment calculation (prompt of generateAssessmentReport)\<close>

text \<open>
  \<open>generateAssessmentReport\<close> does not evaluate the nutrition formulas itself: it writes
  them, step by step, into the prompt sent to the model ("PART 2: THE MATH (Execute
  Step-by-Step)") and returns the parsed reply. The definitions of this section are
  steps 1 to 4 of that prompt text as far as it gives formulas, over real numbers, for a
  request without a body image (PART 3 of the prompt lets the model raise the estimate
  when an image is given). What the prompt leaves to the model (the safe deficit, the
  adjusted timeline, the intake) is not defined here: the program takes it from the
  reply.
\<close>

datatype gender = Male | Female

datatype fitness_goal = LoseWeight | GainMuscle | GetShredded

datatype activity_level = Sedentary | LightlyActive | ModeratelyActive | VeryActive

text \<open>The fields of \<open>QuizData\<close> that PART 1 of the prompt lists as inputs.\<close>

record quiz_data =
  currentWeight :: real
  height :: real
  age :: real
  gender :: gender
  dailyActivity :: activity_level
  gymDaysPerWeek :: real
  goal :: fitness_goal
  targetWeight :: real
  targetPeriodWeeks :: real

text \<open>Step 1: BMR by the Mifflin-St Jeor equation.\<close>

definition calculateBMR :: "gender \<Rightarrow> real \<Rightarrow> real \<Rightarrow> real \<Rightarrow> real" where
  "calculateBMR g weight height_cm age_y =
     (case g of
        Male \<Rightarrow> (10 * weight) + (6.25 * height_cm) - (5 * age_y) + 5
      | Female \<Rightarrow> (10 * weight) + (6.25 * height_cm) - (5 * age_y) - 161)"

text \<open>Step 2: TDEE, the activity multiplier applied to the BMR.\<close>

fun activityMultiplier :: "activity_level \<Rightarrow> real" where
  "activityMultiplier Sedentary = 1.2"
| "activityMultiplier LightlyActive = 1.375"
| "activityMultiplier ModeratelyActive = 1.55"
| "activityMultiplier VeryActive = 1.725"

definition calculateTDEE :: "real \<Rightarrow> activity_level \<Rightarrow> real" where
  "calculateTDEE bmr level = bmr * activityMultiplier level"

definition quizBMR :: "quiz_data \<Rightarrow> real" where
  "quizBMR q = calculateBMR (gender q) (currentWeight q) (height q) (age q)"

definition quizTDEE :: "quiz_data \<Rightarrow> real" where
  "quizTDEE q = calculateTDEE (quizBMR q) (dailyActivity q)"

text \<open>
  Step 3, the gap analysis: \<open>excess_fat_kg\<close> is current weight minus target weight,
  "if negative/gaining muscle, set to 0"; the total gap is 7700 kcal per kg; the daily
  deficit needed divides the gap by the days of the target period. The division is the
  one of the reals: at a period of 0 weeks the prompt's quotient has no value, and no
  theorem below reads it there.
\<close>

definition excessFatKg :: "quiz_data \<Rightarrow> real" where
  "excessFatKg q =
     (if currentWeight q - targetWeight q < 0 \<or> goal q = GainMuscle then 0
      else currentWeight q - targetWeight q)"

definition totalCalorieGap :: "quiz_data \<Rightarrow> real" where
  "totalCalorieGap q = excessFatKg q * 7700"

definition dailyCalorieDeficitNeeded :: "quiz_data \<Rightarrow> real" where
  "dailyCalorieDeficitNeeded q = totalCalorieGap q / (targetPeriodWeeks q * 7)"

text \<open>Step 4, the realism check.\<close>

definition minSafeIntake :: "gender \<Rightarrow> real" where
  "minSafeIntake g = (case g of Female \<Rightarrow> 1200 | Male \<Rightarrow> 1500)"

definition planUnrealistic :: "quiz_data \<Rightarrow> bool" where
  "planUnrealistic q =
     (dailyCalorieDeficitNeeded q > 1000
      \<or> quizTDEE q - dailyCalorieDeficitNeeded q < minSafeIntake (gender q))"

subsection \<open>The report type\<close>

record report_numbers =
  current_maintenance_calories :: real
  daily_calorie_deficit_needed :: real
  target_intake_kcal :: real
  target_burn_per_day_activity :: real

text \<open>\<open>adjusted_timeline_weeks?: number\<close> is an optional field.\<close>

record report_timeline =
  excess_fat_kg :: real
  weeks_to_goal :: real
  projected_loss_per_week_kg :: real
  is_timeline_realistic :: bool
  adjusted_timeline_weeks :: "real option"

record report_nutrition_targets =
  recommended_calories_kcal :: real
  protein_g :: real
  water_l :: real
  carbs_g_range :: "(real \<times> real) option"
  fats_g_range :: "(real \<times> real) option"

datatype band_status = Below | Within | Above

record report_body_comp =
  estimated_bf_percent :: real
  bf_ideal_band :: "real \<times> real"
  bf_status :: band_status
  visual_analysis_notes :: "string option"
  estimated_tbw_percent :: real
  tbw_typical_band :: "real \<times> real"
  tbw_status :: band_status

datatype flag_severity = Low | Medium | High

record flag =
  issue :: string
  severity :: flag_severity
  why :: string

record report_data =
  numbers :: report_numbers
  timeline :: report_timeline
  nutrition_targets :: report_nutrition_targets
  body_comp :: report_body_comp
  flags :: "flag list"
  methodology :: "string list"
  report_markdown :: string

text \<open>
  The invariant the specification states for a timeline: the optional field is present
  exactly when the flag is false.
\<close>

definition timelineInvariant :: "report_timeline \<Rightarrow> bool" where
  "timelineInvariant t = ((adjusted_timeline_weeks t \<noteq> None) = (\<not> is_timeline_realistic t))"

section \<open>Error handling of generateAssessmentReport\<close>

text \<open>
  What the \<open>try\<close> block does is decided outside the program: the call to the model may
  reject, \<open>JSON.parse(response.text)\<close> throws a \<open>SyntaxError\<close> on text that is not JSON,
  and otherwise the parsed value is returned as \<open>ReportData\<close> without any check.
  The \<open>catch\<close> block only asks whether the error is a \<open>SyntaxError\<close>.
\<close>

datatype js_error = SyntaxError | OtherError

datatype 'a try_outcome = Throws js_error | Yields 'a

datatype thrown = AI_JSON_PARSE_ERROR | Rethrown js_error

text \<open>
  The report of the \<open>catch\<close> block. The markdown starts with the warning sign U+26A0
  U+FE0F, given by its UTF-8 bytes.
\<close>

definition fallbackMarkdown :: string where
  "fallbackMarkdown =
     [CHR 0xE2, CHR 0x9A, CHR 0xA0, CHR 0xEF, CHR 0xB8, CHR 0x8F]
     @ '' # Failed to generate report.'' @ [CHR 0x0A, CHR 0x0A]
     @ ''The AI service may be temporarily unavailable or encountered an issue ''
     @ ''processing your data. Please try again later.''"

definition fallbackReport :: report_data where
  "fallbackReport =
     \<lparr>numbers = \<lparr>current_maintenance_calories = 0, daily_calorie_deficit_needed = 0,
                  target_intake_kcal = 0, target_burn_per_day_activity = 0\<rparr>,
      timeline = \<lparr>excess_fat_kg = 0, weeks_to_goal = 0, projected_loss_per_week_kg = 0,
                   is_timeline_realistic = True, adjusted_timeline_weeks = None\<rparr>,
      nutrition_targets = \<lparr>recommended_calories_kcal = 0, protein_g = 0, water_l = 0,
                            carbs_g_range = None, fats_g_range = None\<rparr>,
      body_comp = \<lparr>estimated_bf_percent = 0, bf_ideal_band = (0, 0), bf_status = Within,
                    visual_analysis_notes = Some ''Analysis failed.'',
                    estimated_tbw_percent = 0, tbw_typical_band = (0, 0),
                    tbw_status = Within\<rparr>,
      flags = [],
      methodology = [],
      report_markdown = fallbackMarkdown\<rparr>"

text \<open>
  The version with the fallback: a \<open>SyntaxError\<close> is replaced by a new error
  \<open>AI_JSON_PARSE_ERROR\<close>, every other error by the fallback report.
\<close>

definition generateAssessmentReport ::
    "(quiz_data \<Rightarrow> report_data try_outcome) \<Rightarrow> quiz_data \<Rightarrow> thrown + report_data" where
  "generateAssessmentReport tryBlock quizData =
     (case tryBlock quizData of
        Yields reportData \<Rightarrow> Inr reportData
      | Throws err \<Rightarrow>
          if err = SyntaxError then Inl AI_JSON_PARSE_ERROR else Inr fallbackReport)"

text \<open>The version in \<open>services/geminiService.ts\<close>: the \<open>catch\<close> block logs and rethrows.\<close>

definition generateAssessmentReportRethrow ::
    "(quiz_data \<Rightarrow> report_data try_outcome) \<Rightarrow> quiz_data \<Rightarrow> thrown + report_data" where
  "generateAssessmentReportRethrow tryBlock quizData =
     (case tryBlock quizData of
        Yields reportData \<Rightarrow> Inr reportData
      | Throws err \<Rightarrow> Inl (Rethrown err))"

section \<open>Concrete inputs\<close>

text \<open>The example of the specification: 100 kg, 175 cm, 30 years, male, 80 kg in 8 weeks.\<close>

definition exampleQuiz :: quiz_data where
  "exampleQuiz =
     \<lparr>currentWeight = 100, height = 175, age = 30, gender = Male,
      dailyActivity = ModeratelyActive, gymDaysPerWeek = 3, goal = LoseWeight,
      targetWeight = 80, targetPeriodWeeks = 8\<rparr>"

text \<open>The same request with a negative target period.\<close>

definition negativePeriodQuiz :: quiz_data where
  "negativePeriodQuiz = exampleQuiz\<lparr>targetPeriodWeeks := -8\<rparr>"

text \<open>The same person asking for 95 kg in 20 weeks.\<close>

definition modestQuiz :: quiz_data where
  "modestQuiz = exampleQuiz\<lparr>targetWeight := 95, targetPeriodWeeks := 20\<rparr>"

text \<open>Environments of the \<open>try\<close> block: one that replies with text that is not JSON,
  one whose call fails, one that replies with a given report.\<close>

definition replyNotJson :: "quiz_data \<Rightarrow> report_data try_outcome" where
  "replyNotJson q = Throws SyntaxError"

definition callFails :: "quiz_data \<Rightarrow> report_data try_outcome" where
  "callFails q = Throws OtherError"

definition replyWith :: "report_data \<Rightarrow> quiz_data \<Rightarrow> report_data try_outcome" where
  "replyWith r q = Yields r"

text \<open>
  Whether the timeline of the reply, when the \<open>try\<close> block yields one, satisfies the
  invariant.
\<close>

definition replyTimelineOk :: "(quiz_data \<Rightarrow> report_data try_outcome) \<Rightarrow> quiz_data \<Rightarrow> bool" where
  "replyTimelineOk tryBlock quizData =
     (case tryBlock quizData of
        Yields reportData \<Rightarrow> timelineInvariant (timeline reportData)
      | Throws err \<Rightarrow> True)"

text \<open>
  Replies that have the shape of \<open>ReportData\<close>: the given \<open>numbers\<close> and \<open>timeline\<close>,
  the other groups zeroed.
\<close>

definition replyReport :: "report_numbers \<Rightarrow> report_timeline \<Rightarrow> report_data" where
  "replyReport n t =
     \<lparr>numbers = n,
      timeline = t,
      nutrition_targets = \<lparr>recommended_calories_kcal = 0, protein_g = 0, water_l = 0,
                            carbs_g_range = None, fats_g_range = None\<rparr>,
      body_comp = \<lparr>estimated_bf_percent = 0, bf_ideal_band = (0, 0), bf_status = Within,
                    visual_analysis_notes = None,
                    estimated_tbw_percent = 0, tbw_typical_band = (0, 0),
                    tbw_status = Within\<rparr>,
      flags = [],
      methodology = [],
      report_markdown = []\<rparr>"

text \<open>
  A reply to the example request that keeps the requested deficit of 2750 kcal: the
  timeline is called realistic, no adjusted weeks are given, and the intake is TDEE minus
  the requested deficit.
\<close>

definition unadjustedReply :: report_data where
  "unadjustedReply =
     replyReport
       \<lparr>current_maintenance_calories = 3020.5625, daily_calorie_deficit_needed = 2750,
        target_intake_kcal = 270.5625, target_burn_per_day_activity = 300\<rparr>
       \<lparr>excess_fat_kg = 20, weeks_to_goal = 8, projected_loss_per_week_kg = 2.5,
        is_timeline_realistic = True, adjusted_timeline_weeks = None\<rparr>"

text \<open>
  A reply to the example request that adjusts the plan: a deficit of 500 kcal, 44 weeks.
\<close>

definition adjustedReply :: report_data where
  "adjustedReply =
     replyReport
       \<lparr>current_maintenance_calories = 3020.5625, daily_calorie_deficit_needed = 2750,
        target_intake_kcal = 2520.5625, target_burn_per_day_activity = 300\<rparr>
       \<lparr>excess_fat_kg = 20, weeks_to_goal = 8, projected_loss_per_week_kg = 0.45,
        is_timeline_realistic = False, adjusted_timeline_weeks = Some 44\<rparr>"

text \<open>
  A reply that calls the timeline realistic and fills the optional field all the same.
\<close>

definition bothFieldsReply :: report_data where
  "bothFieldsReply =
     replyReport
       \<lparr>current_maintenance_calories = 3020.5625, daily_calorie_deficit_needed = 275,
        target_intake_kcal = 2745.5625, target_burn_per_day_activity = 300\<rparr>
       \<lparr>excess_fat_kg = 5, weeks_to_goal = 20, projected_loss_per_week_kg = 0.25,
        is_timeline_realistic = True, adjusted_timeline_weeks = Some 12\<rparr>"

text \<open>A reply to the request with the negative period that carries the quotient.\<close>

definition negativePeriodReply :: report_data where
  "negativePeriodReply =
     replyReport
       \<lparr>current_maintenance_calories = 3020.5625, daily_calorie_deficit_needed = -2750,
        target_intake_kcal = 5770.5625, target_burn_per_day_activity = 300\<rparr>
       \<lparr>excess_fat_kg = 20, weeks_to_goal = -8, projected_loss_per_week_kg = -2.5,
        is_timeline_realistic = True, adjusted_timeline_weeks = None\<rparr>"

section \<open>Properties of the trainer assignment\<close>

lemma weightedPool_lose_weight:
  "weightedPool (JsString ''Weight Loss'') =
     replicate 5 ''Athul'' @ [''Athithiya''] @ replicate 5 ''Saieel''"
  by (simp add: weightedPool_def allTrainers_def specialistWeight_def generalistWeight_def)

lemma smartPool_lose_weight:
  "smartPool (Some ''lose_weight'') =
     replicate 5 ''Athul'' @ [''Athithiya''] @ replicate 5 ''Saieel''"
  by (simp add: smartPool_def targetSpecialty_def goalToSpecialtyMap_def
      weightedPool_lose_weight)

lemma count_list_replicate:
  "count_list (replicate k x) y = (if x = y then k else 0)"
  by (induction k) auto

lemma slot_interval:
  fixes r :: real
  assumes "0 < n"
  shows "(\<lfloor>r * real n\<rfloor> = int k) = (real k / real n \<le> r \<and> r < (real k + 1) / real n)"
proof -
  have "(\<lfloor>r * real n\<rfloor> = int k) = (real k \<le> r * real n \<and> r * real n < real k + 1)"
    by (simp add: floor_eq_iff)
  also have "\<dots> = (real k / real n \<le> r \<and> r < (real k + 1) / real n)"
    using assms by (simp add: pos_divide_le_eq pos_less_divide_eq)
  finally show ?thesis .
qed

lemma randomDraw_in_pool:
  assumes "pool \<noteq> []" and "0 \<le> r" and "r < 1"
  shows "\<exists>n. randomDraw pool r = Some n \<and> n \<in> set pool"
proof -
  let ?l = "real (length pool)"
  have pos: "0 < ?l" using assms(1) by simp
  have lo: "0 \<le> \<lfloor>r * ?l\<rfloor>" using assms(2) pos by simp
  have "r * ?l < ?l" using assms(3) pos by simp
  then have hi: "\<lfloor>r * ?l\<rfloor> < int (length pool)" by (simp add: floor_less_iff)
  then have "nat \<lfloor>r * ?l\<rfloor> < length pool" using lo by linarith
  then have mem: "pool ! nat \<lfloor>r * ?l\<rfloor> \<in> set pool" by (rule nth_mem)
  have "randomDraw pool r = Some (pool ! nat \<lfloor>r * ?l\<rfloor>)"
    unfolding randomDraw_def js_index_def using lo hi by (simp only: if_True simp_thms)
  then show ?thesis using mem by blast
qed

lemma weightedPool_names: "set (weightedPool v) = trainerNames"
  by (auto simp add: weightedPool_def allTrainers_def trainerNames_def
      specialistWeight_def generalistWeight_def)

lemma smartPool_names: "set (smartPool g) = trainerNames"
  by (auto simp add: smartPool_def weightedPool_names allTrainers_def trainerNames_def)

lemma simplePool_names: "set (simplePool g) = trainerNames"
  by (auto simp add: simplePool_def allTrainers_def trainerNames_def)


lemma lose_weight_pool_counts:
  "count_list (smartPool (Some ''lose_weight'')) ''Athul'' = 5
   \<and> count_list (smartPool (Some ''lose_weight'')) ''Saieel'' = 5
   \<and> count_list (smartPool (Some ''lose_weight'')) ''Athithiya'' = 1
   \<and> length (smartPool (Some ''lose_weight'')) = 11"
  by (simp add: smartPool_lose_weight count_list_replicate)

lemma lose_weight_slot:
  assumes "i < 11"
  shows "smartPool (Some ''lose_weight'') ! i =
           (if i < 5 then ''Athul'' else if i = 5 then ''Athithiya'' else ''Saieel'')"
  using assms unfolding smartPool_lose_weight by (simp add: nth_append)

lemma lose_weight_draw_Athithiya:
  assumes "0 \<le> r" and "r < 1"
  shows "(smartTrainerAssignment (Some ''lose_weight'') r = Some ''Athithiya'')
           = (5 / 11 \<le> r \<and> r < 6 / 11)"
proof -
  let ?k = "\<lfloor>r * real (11::nat)\<rfloor>"
  have len: "length (smartPool (Some ''lose_weight'')) = 11"
    by (simp add: smartPool_lose_weight)
  have lo: "0 \<le> ?k" using assms(1) by simp
  have "r * real (11::nat) < 11" using assms(2) by simp
  then have hi: "?k < 11" by (simp add: floor_less_iff)
  then have n: "nat ?k < 11" using lo by linarith
  have draw: "smartTrainerAssignment (Some ''lose_weight'') r
                = Some (smartPool (Some ''lose_weight'') ! nat ?k)"
    using lo hi by (simp add: smartTrainerAssignment_def randomDraw_def js_index_def len)
  have "(smartPool (Some ''lose_weight'') ! nat ?k = ''Athithiya'') = (nat ?k = 5)"
    using lose_weight_slot [OF n] by simp
  also have "\<dots> = (?k = int 5)" using lo by linarith
  also have "\<dots> = (real 5 / real 11 \<le> r \<and> r < (real 5 + 1) / real 11)"
    by (rule slot_interval) simp
  finally show ?thesis using draw by simp
qed

lemma trainerNames_nonempty: "trainerNames \<noteq> {}"
  by (simp add: trainerNames_def)

lemma smartPool_nonempty: "smartPool g \<noteq> []"
proof
  assume "smartPool g = []"
  then have "set (smartPool g) = {}" by simp
  then show False using smartPool_names [of g] trainerNames_nonempty by simp
qed

text \<open>
  Claim C1, as the code has it. For the goal \<open>lose_weight\<close> the pool holds Athul five
  times, Athithiya once and Saieel five times, eleven slots in all: the two trainers
  tagged "Weight Loss" are drawn with probability 5/11 each, 10/11 together, and
  Athithiya with probability 1/11 (by \<open>lose_weight_draw_Athithiya\<close>, exactly when
  \<open>Math.random()\<close> falls in \<open>[5/11, 6/11)\<close>).
\<close>

theorem C1_lose_weight_probabilities:
  "drawProbability (smartPool (Some ''lose_weight'')) ''Athul'' = 5 / 11
   \<and> drawProbability (smartPool (Some ''lose_weight'')) ''Saieel'' = 5 / 11
   \<and> drawProbability (smartPool (Some ''lose_weight'')) ''Athul''
       + drawProbability (smartPool (Some ''lose_weight'')) ''Saieel'' = 10 / 11
   \<and> drawProbability (smartPool (Some ''lose_weight'')) ''Athithiya'' = 1 / 11"
  unfolding drawProbability_def using lose_weight_pool_counts by simp

text \<open>
  The figures of claim C1 as written, 5/7 together and 1/7, are not the ones of the pool.
\<close>

theorem C1_counterexample:
  "drawProbability (smartPool (Some ''lose_weight'')) ''Athul''
     + drawProbability (smartPool (Some ''lose_weight'')) ''Saieel'' \<noteq> 5 / 7
   \<and> drawProbability (smartPool (Some ''lose_weight'')) ''Athithiya'' \<noteq> 1 / 7"
  unfolding drawProbability_def using lose_weight_pool_counts by simp

text \<open>
  Claim C9. For every goal, present or absent, known or not, and every value \<open>r\<close> of
  \<open>Math.random()\<close> (a number in \<open>[0, 1)\<close>), the assignment yields a name, not
  \<open>undefined\<close>, and the name is one of the three trainers: in the weighted version, in
  the simple version, and in the response, where a failed generation falls back on Athul.
\<close>

theorem C9_assignment_in_trainer_set:
  assumes "0 \<le> r" and "r < 1"
  shows "(\<exists>n. smartTrainerAssignment g r = Some n \<and> n \<in> trainerNames)
         \<and> (\<exists>n. simpleTrainerAssignment g r = Some n \<and> n \<in> trainerNames)
         \<and> (\<exists>n. assignedTrainerOfResponse g r ok = Some n \<and> n \<in> trainerNames)"
proof -
  have ne2: "simplePool g \<noteq> []"
    by (simp add: simplePool_def allTrainers_def)
  have smart: "\<exists>n. smartTrainerAssignment g r = Some n \<and> n \<in> trainerNames"
  proof -
    obtain n where "randomDraw (smartPool g) r = Some n" and "n \<in> set (smartPool g)"
      using randomDraw_in_pool [OF smartPool_nonempty [of g] assms] by blast
    then show ?thesis
      unfolding smartTrainerAssignment_def smartPool_names by blast
  qed
  have simple: "\<exists>n. simpleTrainerAssignment g r = Some n \<and> n \<in> trainerNames"
  proof -
    obtain n where "randomDraw (simplePool g) r = Some n" and "n \<in> set (simplePool g)"
      using randomDraw_in_pool [OF ne2 assms] by blast
    then show ?thesis
      unfolding simpleTrainerAssignment_def simplePool_names by blast
  qed
  have resp: "\<exists>n. assignedTrainerOfResponse g r ok = Some n \<and> n \<in> trainerNames"
  proof (cases ok)
    case True
    then show ?thesis using smart by (simp add: assignedTrainerOfResponse_def)
  next
    case False
    then show ?thesis by (simp add: assignedTrainerOfResponse_def trainerNames_def)
  qed
  show ?thesis using smart simple resp by (intro conjI)
qed

theorem C9_witness:
  "(0::real) \<le> 0.95 \<and> (0.95::real) < 1
   \<and> (\<exists>n. smartTrainerAssignment (Some ''constructor'') 0.95 = Some n \<and> n \<in> trainerNames)
   \<and> (\<exists>n. simpleTrainerAssignment (Some ''constructor'') 0.95 = Some n \<and> n \<in> trainerNames)
   \<and> (\<exists>n. assignedTrainerOfResponse (Some ''constructor'') 0.95 False = Some n
          \<and> n \<in> trainerNames)"
proof -
  have a: "(0::real) \<le> 0.95" by simp
  have b: "(0.95::real) < 1" by simp
  show ?thesis
    using a b C9_assignment_in_trainer_set [OF a b, of "Some ''constructor''" False]
    by (intro conjI) (simp_all only: simp_thms)
qed

lemma simple_slot:
  assumes "i < 3"
  shows "simplePool g ! i =
           (if i = 0 then ''Athul'' else if i = 1 then ''Athithiya'' else ''Saieel'')"
proof -
  have "i = 0 \<or> i = 1 \<or> i = 2" using assms by linarith
  then show ?thesis by (auto simp add: simplePool_def allTrainers_def)
qed

lemma simple_draw_slot:
  assumes "0 \<le> r" and "r < 1"
  shows "(simpleTrainerAssignment g r = Some n)
           = (simplePool g ! nat \<lfloor>r * real (3::nat)\<rfloor> = n)"
    and "0 \<le> \<lfloor>r * real (3::nat)\<rfloor>" and "nat \<lfloor>r * real (3::nat)\<rfloor> < 3"
proof -
  let ?k = "\<lfloor>r * real (3::nat)\<rfloor>"
  have len: "length (simplePool g) = 3" by (simp add: simplePool_def allTrainers_def)
  show lo: "0 \<le> ?k" using assms(1) by simp
  have "r * real (3::nat) < 3" using assms(2) by simp
  then have hi: "?k < 3" by (simp add: floor_less_iff)
  then show "nat ?k < 3" using lo by linarith
  show "(simpleTrainerAssignment g r = Some n) = (simplePool g ! nat ?k = n)"
    using lo hi by (simp add: simpleTrainerAssignment_def randomDraw_def js_index_def len)
qed

lemma simple_draw_intervals:
  assumes "0 \<le> r" and "r < 1"
  shows "(simpleTrainerAssignment g r = Some ''Athul'') = (r < 1 / 3)"
    and "(simpleTrainerAssignment g r = Some ''Athithiya'') = (1 / 3 \<le> r \<and> r < 2 / 3)"
    and "(simpleTrainerAssignment g r = Some ''Saieel'') = (2 / 3 \<le> r)"
proof -
  let ?k = "\<lfloor>r * real (3::nat)\<rfloor>"
  note slot = simple_draw_slot [OF assms]
  define i where "i = nat ?k"
  have i3: "i < 3" using slot(3) by (simp add: i_def)
  have draw: "\<And>n. (simpleTrainerAssignment g r = Some n) = (simplePool g ! i = n)"
    using slot(1) [of g] by (simp add: i_def)
  have pool: "simplePool g ! i =
                (if i = 0 then ''Athul'' else if i = 1 then ''Athithiya'' else ''Saieel'')"
    using i3 by (rule simple_slot)
  have k0: "(i = 0) = (?k = int 0)" using slot(2) unfolding i_def by linarith
  have k1: "(i = 1) = (?k = int 1)" using slot(2) unfolding i_def by linarith
  have k2: "(i = 2) = (?k = int 2)" using slot(2) unfolding i_def by linarith
  have i0: "(?k = int 0) = (real 0 / real 3 \<le> r \<and> r < (real 0 + 1) / real 3)"
    by (rule slot_interval) simp
  have i1: "(?k = int 1) = (real 1 / real 3 \<le> r \<and> r < (real 1 + 1) / real 3)"
    by (rule slot_interval) simp
  have i2: "(?k = int 2) = (real 2 / real 3 \<le> r \<and> r < (real 2 + 1) / real 3)"
    by (rule slot_interval) simp
  have a: "(simpleTrainerAssignment g r = Some ''Athul'') = (i = 0)"
    unfolding draw pool by simp
  have b: "(simpleTrainerAssignment g r = Some ''Athithiya'') = (i = 1)"
    unfolding draw pool by simp
  have "(simpleTrainerAssignment g r = Some ''Saieel'') = (i \<noteq> 0 \<and> i \<noteq> 1)"
    unfolding draw pool by simp
  also have "\<dots> = (i = 2)" using i3 by auto
  finally have c: "(simpleTrainerAssignment g r = Some ''Saieel'') = (i = 2)" .
  show "(simpleTrainerAssignment g r = Some ''Athul'') = (r < 1 / 3)"
    unfolding a k0 i0 using assms by simp
  show "(simpleTrainerAssignment g r = Some ''Athithiya'') = (1 / 3 \<le> r \<and> r < 2 / 3)"
    unfolding b k1 i1 by simp
  show "(simpleTrainerAssignment g r = Some ''Saieel'') = (2 / 3 \<le> r)"
    unfolding c k2 i2 using assms by simp
qed

lemma simple_pool_probabilities:
  "drawProbability (simplePool g) ''Athul'' = 1 / 3"
  "drawProbability (simplePool g) ''Athithiya'' = 1 / 3"
  "drawProbability (simplePool g) ''Saieel'' = 1 / 3"
  by (simp_all add: drawProbability_def simplePool_def allTrainers_def)

lemma simple_goal_independent:
  "simplePool g = simplePool g'"
  "simpleTrainerAssignment g r = simpleTrainerAssignment g' r"
  by (simp_all add: simplePool_def simpleTrainerAssignment_def)

text \<open>
  Claim C10. In the version of \<open>services/geminiService.ts\<close> the pool is the three names
  whatever the goal, one slot each, and the draw is uniform: for \<open>Math.random()\<close> in
  \<open>[0, 1)\<close> it returns Athul exactly on \<open>[0, 1/3)\<close>, Athithiya exactly on \<open>[1/3, 2/3)\<close>
  and Saieel exactly on \<open>[2/3, 1)\<close>, three intervals of length 1/3. For the same value
  of \<open>Math.random()\<close> two requests with different goals get the same trainer.
\<close>

theorem C10_simple_assignment_uniform:
  assumes "0 \<le> r" and "r < 1"
  shows "drawProbability (simplePool g) ''Athul'' = 1 / 3
         \<and> drawProbability (simplePool g) ''Athithiya'' = 1 / 3
         \<and> drawProbability (simplePool g) ''Saieel'' = 1 / 3
         \<and> simplePool g = simplePool g'
         \<and> simpleTrainerAssignment g r = simpleTrainerAssignment g' r
         \<and> (simpleTrainerAssignment g r = Some ''Athul'') = (r < 1 / 3)
         \<and> (simpleTrainerAssignment g r = Some ''Athithiya'') = (1 / 3 \<le> r \<and> r < 2 / 3)
         \<and> (simpleTrainerAssignment g r = Some ''Saieel'') = (2 / 3 \<le> r)"
  by (intro conjI simple_pool_probabilities simple_goal_independent
      simple_draw_intervals [OF assms])

theorem C10_witness:
  "(0::real) \<le> 0.5 \<and> (0.5::real) < 1
   \<and> drawProbability (simplePool (Some ''lose_weight'')) ''Athul'' = 1 / 3
   \<and> simpleTrainerAssignment (Some ''lose_weight'') 0.5 = simpleTrainerAssignment None 0.5
   \<and> simpleTrainerAssignment (Some ''lose_weight'') 0.5 = Some ''Athithiya''
   \<and> simpleTrainerAssignment (Some ''lose_weight'') 0.5 \<noteq> Some ''Athul''
   \<and> simpleTrainerAssignment (Some ''lose_weight'') 0.5 \<noteq> Some ''Saieel''"
proof -
  have a: "(0::real) \<le> 0.5" by simp
  have b: "(0.5::real) < 1" by simp
  note t = C10_simple_assignment_uniform [OF a b, of "Some ''lose_weight''" None]
  have p: "drawProbability (simplePool (Some ''lose_weight'')) ''Athul'' = 1 / 3"
    using t by blast
  have e: "simpleTrainerAssignment (Some ''lose_weight'') 0.5 = simpleTrainerAssignment None 0.5"
    using t by blast
  have "(simpleTrainerAssignment (Some ''lose_weight'') 0.5 = Some ''Athithiya'')
          = (1 / 3 \<le> (0.5::real) \<and> (0.5::real) < 2 / 3)"
    using t by blast
  then have m: "simpleTrainerAssignment (Some ''lose_weight'') 0.5 = Some ''Athithiya''"
    by simp
  show ?thesis using a b p e m by simp
qed

section \<open>Properties of the assessment calculation\<close>

lemmas calc_defs = quizBMR_def quizTDEE_def calculateBMR_def calculateTDEE_def
  excessFatKg_def totalCalorieGap_def dailyCalorieDeficitNeeded_def minSafeIntake_def

lemma example_values:
  "quizBMR exampleQuiz = 1948.75
   \<and> quizTDEE exampleQuiz = 3020.5625
   \<and> excessFatKg exampleQuiz = 20
   \<and> totalCalorieGap exampleQuiz = 154000
   \<and> dailyCalorieDeficitNeeded exampleQuiz = 2750"
  by (simp add: calc_defs exampleQuiz_def)

text \<open>
  Claim C2, as the prompt's formulas give it. For 100 kg, 175 cm, 30 years, male,
  moderately active (1.55), target 80 kg in 8 weeks: BMR = 10 * 100 + 6.25 * 175 - 5 * 30
  + 5 = 1948.75 kcal, TDEE = 1948.75 * 1.55 = 3020.5625 kcal, excess fat 20 kg, total gap
  154000 kcal, daily deficit needed 154000 / 56 = 2750 kcal, which exceeds 1000: the plan
  is unrealistic.
\<close>

theorem C2_example_values:
  "quizBMR exampleQuiz = 1948.75
   \<and> quizTDEE exampleQuiz = 3020.5625
   \<and> excessFatKg exampleQuiz = 20
   \<and> totalCalorieGap exampleQuiz = 154000
   \<and> dailyCalorieDeficitNeeded exampleQuiz = 154000 / 56
   \<and> dailyCalorieDeficitNeeded exampleQuiz = 2750
   \<and> dailyCalorieDeficitNeeded exampleQuiz > 1000
   \<and> planUnrealistic exampleQuiz"
  using example_values by (simp add: planUnrealistic_def)

text \<open>
  The BMR of claim C2 as written, 1748.75 kcal, is 200 kcal short, and so its TDEE of
  about 2710.6 kcal is more than 300 kcal below the value of the formulas.
\<close>

theorem C2_counterexample:
  "quizBMR exampleQuiz \<noteq> 1748.75 \<and> quizTDEE exampleQuiz - 2710.6 > 300"
  using example_values by simp

lemma modest_values:
  "quizTDEE modestQuiz = 3020.5625 \<and> dailyCalorieDeficitNeeded modestQuiz = 275"
  by (simp add: calc_defs modestQuiz_def exampleQuiz_def)

lemma modest_realistic: "\<not> planUnrealistic modestQuiz"
  using modest_values
  by (simp add: planUnrealistic_def minSafeIntake_def modestQuiz_def exampleQuiz_def)

lemma fallback_timeline:
  "is_timeline_realistic (timeline fallbackReport)
   \<and> adjusted_timeline_weeks (timeline fallbackReport) = None
   \<and> target_intake_kcal (numbers fallbackReport) = 0"
  by (simp add: fallbackReport_def)

lemma reply_returned:
  "tryBlock q = Yields r \<Longrightarrow> generateAssessmentReport tryBlock q = Inr r"
  by (simp add: generateAssessmentReport_def)

lemma fallback_returned:
  "tryBlock q = Throws err \<Longrightarrow> err \<noteq> SyntaxError
     \<Longrightarrow> generateAssessmentReport tryBlock q = Inr fallbackReport"
  by (simp add: generateAssessmentReport_def)

text \<open>
  Claim C4, as the code has it. When the daily deficit needed exceeds 1000 kcal (for a
  target period other than 0) the realism check of step 4 fires: the plan is
  unrealistic. The program makes no adjustment of its own: a reply that parses is
  returned as it is, with its \<open>is_timeline_realistic\<close> and \<open>adjusted_timeline_weeks\<close>,
  and when the call fails the fallback report is returned, whose timeline is marked
  realistic and has no adjusted weeks.
\<close>

theorem C4_large_deficit_unrealistic:
  assumes "dailyCalorieDeficitNeeded q > 1000" and "targetPeriodWeeks q \<noteq> 0"
  shows "planUnrealistic q
         \<and> (tryBlock q = Yields r \<longrightarrow> generateAssessmentReport tryBlock q = Inr r)
         \<and> (tryBlock q = Throws err \<and> err \<noteq> SyntaxError
              \<longrightarrow> generateAssessmentReport tryBlock q = Inr fallbackReport)
         \<and> is_timeline_realistic (timeline fallbackReport)
         \<and> adjusted_timeline_weeks (timeline fallbackReport) = None"
proof -
  have "planUnrealistic q" using assms(1) by (simp add: planUnrealistic_def)
  then show ?thesis
    using fallback_timeline reply_returned [of tryBlock q r]
      fallback_returned [of tryBlock q err]
    by blast
qed

theorem C4_witness:
  "dailyCalorieDeficitNeeded exampleQuiz > 1000 \<and> targetPeriodWeeks exampleQuiz \<noteq> 0
   \<and> planUnrealistic exampleQuiz
   \<and> replyWith adjustedReply exampleQuiz = Yields adjustedReply
   \<and> generateAssessmentReport (replyWith adjustedReply) exampleQuiz = Inr adjustedReply
   \<and> callFails exampleQuiz = Throws OtherError \<and> OtherError \<noteq> SyntaxError
   \<and> generateAssessmentReport callFails exampleQuiz = Inr fallbackReport"
proof -
  have a: "dailyCalorieDeficitNeeded exampleQuiz > 1000" using example_values by simp
  have b: "targetPeriodWeeks exampleQuiz \<noteq> 0" by (simp add: exampleQuiz_def)
  have c: "replyWith adjustedReply exampleQuiz = Yields adjustedReply"
    by (simp add: replyWith_def)
  have d: "callFails exampleQuiz = Throws OtherError" by (simp add: callFails_def)
  have e: "OtherError \<noteq> SyntaxError" by simp
  show ?thesis
    using a b c d e
      C4_large_deficit_unrealistic [OF a b, of "replyWith adjustedReply" adjustedReply OtherError]
      C4_large_deficit_unrealistic [OF a b, of callFails adjustedReply OtherError]
    by blast
qed

text \<open>
  Claim C4 as written fails: for the example request, whose deficit needed is 2750 kcal,
  a reply that keeps the requested plan is returned unchanged, marked realistic and
  without adjusted weeks; and when the call fails the fallback report is returned,
  marked realistic and without adjusted weeks.
\<close>

theorem C4_counterexample:
  "dailyCalorieDeficitNeeded exampleQuiz > 1000
   \<and> generateAssessmentReport (replyWith unadjustedReply) exampleQuiz = Inr unadjustedReply
   \<and> is_timeline_realistic (timeline unadjustedReply)
   \<and> adjusted_timeline_weeks (timeline unadjustedReply) = None
   \<and> generateAssessmentReport callFails exampleQuiz = Inr fallbackReport
   \<and> is_timeline_realistic (timeline fallbackReport)
   \<and> adjusted_timeline_weeks (timeline fallbackReport) = None"
  using example_values fallback_timeline
  by (simp add: generateAssessmentReport_def replyWith_def callFails_def
      unadjustedReply_def replyReport_def)

text \<open>
  Claim C5, as the code has it. The minimum safe intake, 1200 kcal for women and
  1500 kcal for men, enters the realism check of step 4: when the check does not fire,
  TDEE minus the daily deficit needed is at least the minimum. The program puts no
  floor under \<open>target_intake_kcal\<close>: a reply that parses is returned as it is.
\<close>

theorem C5_minimum_in_realism_check:
  "minSafeIntake Female = 1200 \<and> minSafeIntake Male = 1500
   \<and> (\<not> planUnrealistic q
        \<longrightarrow> minSafeIntake (gender q) \<le> quizTDEE q - dailyCalorieDeficitNeeded q)
   \<and> (tryBlock q = Yields r \<longrightarrow> generateAssessmentReport tryBlock q = Inr r)"
  using reply_returned [of tryBlock q r]
  by (auto simp add: planUnrealistic_def minSafeIntake_def)

theorem C5_witness:
  "\<not> planUnrealistic modestQuiz
   \<and> minSafeIntake (gender modestQuiz) \<le> quizTDEE modestQuiz - dailyCalorieDeficitNeeded modestQuiz
   \<and> replyWith bothFieldsReply modestQuiz = Yields bothFieldsReply
   \<and> generateAssessmentReport (replyWith bothFieldsReply) modestQuiz = Inr bothFieldsReply"
proof -
  have a: "\<not> planUnrealistic modestQuiz" by (rule modest_realistic)
  have b: "replyWith bothFieldsReply modestQuiz = Yields bothFieldsReply"
    by (simp add: replyWith_def)
  show ?thesis
    using a b C5_minimum_in_realism_check [of modestQuiz "replyWith bothFieldsReply" bothFieldsReply]
    by blast
qed

text \<open>
  Claim C5 as written fails: for the example request (male, minimum 1500 kcal) a reply
  with an intake of 270.5625 kcal, TDEE minus the requested deficit, is returned
  unchanged, and when the call fails the fallback report is returned with an intake of 0.
\<close>

theorem C5_counterexample:
  "generateAssessmentReport (replyWith unadjustedReply) exampleQuiz = Inr unadjustedReply
   \<and> target_intake_kcal (numbers unadjustedReply) = 270.5625
   \<and> target_intake_kcal (numbers unadjustedReply) < minSafeIntake (gender exampleQuiz)
   \<and> generateAssessmentReport callFails exampleQuiz = Inr fallbackReport
   \<and> target_intake_kcal (numbers fallbackReport) < minSafeIntake (gender exampleQuiz)"
  using fallback_timeline
  by (simp add: generateAssessmentReport_def replyWith_def callFails_def
      unadjustedReply_def replyReport_def minSafeIntake_def exampleQuiz_def)


text \<open>
  Claim C6, with the premise it needs. When the BMR is positive the TDEE is strictly
  positive for every activity level, and for a fixed BMR it grows strictly with the
  multiplier: sedentary < lightly active < moderately active < very active.
\<close>

theorem C6_tdee_positive_monotone:
  assumes "0 < bmr"
  shows "0 < calculateTDEE bmr level
         \<and> (activityMultiplier level < activityMultiplier level'
              \<longrightarrow> calculateTDEE bmr level < calculateTDEE bmr level')
         \<and> calculateTDEE bmr Sedentary < calculateTDEE bmr LightlyActive
         \<and> calculateTDEE bmr LightlyActive < calculateTDEE bmr ModeratelyActive
         \<and> calculateTDEE bmr ModeratelyActive < calculateTDEE bmr VeryActive"
proof -
  have "0 < activityMultiplier level" by (cases level) simp_all
  then show ?thesis using assms by (simp add: calculateTDEE_def)
qed

theorem C6_witness:
  "0 < quizBMR exampleQuiz
   \<and> 0 < calculateTDEE (quizBMR exampleQuiz) Sedentary
   \<and> activityMultiplier Sedentary < activityMultiplier VeryActive
   \<and> calculateTDEE (quizBMR exampleQuiz) Sedentary
       < calculateTDEE (quizBMR exampleQuiz) VeryActive"
proof -
  have a: "0 < quizBMR exampleQuiz" using example_values by simp
  have b: "activityMultiplier Sedentary < activityMultiplier VeryActive" by simp
  show ?thesis
    using a b C6_tdee_positive_monotone [OF a, of Sedentary VeryActive] by blast
qed

text \<open>
  Positive weight, height and age do not make the BMR positive, as claim C6 assumes:
  for a female of 10 kg, 10 cm and 1 year the BMR is -3.5 kcal, the TDEE is negative
  and falls as the multiplier grows.
\<close>

theorem C6_counterexample:
  "(0::real) < 10 \<and> (0::real) < 1
   \<and> calculateBMR Female 10 10 1 = -3.5
   \<and> calculateTDEE (calculateBMR Female 10 10 1) Sedentary = -4.2
   \<and> \<not> 0 < calculateTDEE (calculateBMR Female 10 10 1) Sedentary
   \<and> \<not> calculateTDEE (calculateBMR Female 10 10 1) Sedentary
         \<le> calculateTDEE (calculateBMR Female 10 10 1) VeryActive"
  by (simp add: calculateBMR_def calculateTDEE_def)

section \<open>Properties of the error handling\<close>

text \<open>
  Claim C7, as the code has it. The timeline of the fallback report satisfies the
  invariant (\<open>adjusted_timeline_weeks\<close> present if and only if \<open>is_timeline_realistic\<close> is
  false), and the timeline of any report that \<open>generateAssessmentReport\<close> returns
  satisfies it exactly when the timeline of the reply does: the reply is not checked.
\<close>

theorem C7_returned_timeline_invariant:
  assumes "generateAssessmentReport tryBlock q = Inr r"
  shows "timelineInvariant (timeline fallbackReport)
         \<and> timelineInvariant (timeline r) = replyTimelineOk tryBlock q"
proof -
  have fb: "timelineInvariant (timeline fallbackReport)"
    by (simp add: timelineInvariant_def fallbackReport_def)
  have "timelineInvariant (timeline r) = replyTimelineOk tryBlock q"
  proof (cases "tryBlock q")
    case (Throws err)
    then have "r = fallbackReport"
      using assms by (simp add: generateAssessmentReport_def split: if_splits)
    then show ?thesis using fb Throws by (simp add: replyTimelineOk_def)
  next
    case (Yields r')
    then have "r = r'" using assms by (simp add: generateAssessmentReport_def)
    then show ?thesis using Yields by (simp add: replyTimelineOk_def)
  qed
  then show ?thesis using fb by simp
qed

theorem C7_witness:
  "generateAssessmentReport callFails exampleQuiz = Inr fallbackReport
   \<and> timelineInvariant (timeline fallbackReport)
   \<and> replyTimelineOk callFails exampleQuiz
   \<and> generateAssessmentReport (replyWith adjustedReply) exampleQuiz = Inr adjustedReply
   \<and> timelineInvariant (timeline adjustedReply)
   \<and> replyTimelineOk (replyWith adjustedReply) exampleQuiz"
proof -
  have a: "generateAssessmentReport callFails exampleQuiz = Inr fallbackReport"
    by (simp add: generateAssessmentReport_def callFails_def)
  have b: "generateAssessmentReport (replyWith adjustedReply) exampleQuiz = Inr adjustedReply"
    by (simp add: generateAssessmentReport_def replyWith_def)
  have c: "replyTimelineOk callFails exampleQuiz"
    by (simp add: replyTimelineOk_def callFails_def)
  have d: "replyTimelineOk (replyWith adjustedReply) exampleQuiz"
    by (simp add: replyTimelineOk_def replyWith_def timelineInvariant_def adjustedReply_def
        replyReport_def)
  show ?thesis
    using a b c d C7_returned_timeline_invariant [OF a] C7_returned_timeline_invariant [OF b]
    by simp
qed

text \<open>
  Claim C7 as written fails: a reply that marks the timeline realistic and fills
  \<open>adjusted_timeline_weeks\<close> with 12 is returned unchanged.
\<close>

theorem C7_counterexample:
  "generateAssessmentReport (replyWith bothFieldsReply) modestQuiz = Inr bothFieldsReply
   \<and> is_timeline_realistic (timeline bothFieldsReply)
   \<and> adjusted_timeline_weeks (timeline bothFieldsReply) = Some 12
   \<and> \<not> timelineInvariant (timeline bothFieldsReply)"
  by (simp add: generateAssessmentReport_def replyWith_def bothFieldsReply_def
      replyReport_def timelineInvariant_def)


text \<open>
  Claim C3, as the code has it. In the version with the fallback, an error other than a
  \<open>SyntaxError\<close> yields the fallback report, and a \<open>SyntaxError\<close> (a reply that is not
  JSON) is thrown on as \<open>AI_JSON_PARSE_ERROR\<close>; the version of
  \<open>services/geminiService.ts\<close> rethrows every error.
\<close>

theorem C3_failure_paths:
  "(tryBlock q = Throws err \<and> err \<noteq> SyntaxError
      \<longrightarrow> generateAssessmentReport tryBlock q = Inr fallbackReport)
   \<and> (tryBlock q = Throws SyntaxError
      \<longrightarrow> generateAssessmentReport tryBlock q = Inl AI_JSON_PARSE_ERROR)
   \<and> (tryBlock q = Throws err
      \<longrightarrow> generateAssessmentReportRethrow tryBlock q = Inl (Rethrown err))"
  by (simp add: generateAssessmentReport_def generateAssessmentReportRethrow_def)

theorem C3_witness:
  "callFails exampleQuiz = Throws OtherError \<and> OtherError \<noteq> SyntaxError
   \<and> generateAssessmentReport callFails exampleQuiz = Inr fallbackReport
   \<and> replyNotJson exampleQuiz = Throws SyntaxError
   \<and> generateAssessmentReport replyNotJson exampleQuiz = Inl AI_JSON_PARSE_ERROR
   \<and> generateAssessmentReportRethrow callFails exampleQuiz = Inl (Rethrown OtherError)"
  using C3_failure_paths [of callFails exampleQuiz OtherError]
    C3_failure_paths [of replyNotJson exampleQuiz SyntaxError]
  by (simp add: callFails_def replyNotJson_def)

text \<open>
  Claim C3 as written fails: a reply that is not JSON makes the first version throw, and
  any failure makes the second version throw.
\<close>

theorem C3_counterexample:
  "generateAssessmentReport replyNotJson exampleQuiz = Inl AI_JSON_PARSE_ERROR
   \<and> generateAssessmentReportRethrow callFails exampleQuiz = Inl (Rethrown OtherError)
   \<and> generateAssessmentReportRethrow replyNotJson exampleQuiz = Inl (Rethrown SyntaxError)"
  by (simp add: generateAssessmentReport_def generateAssessmentReportRethrow_def
      callFails_def replyNotJson_def)

lemma excessFatKg_nonneg: "0 \<le> excessFatKg q"
  by (simp add: excessFatKg_def)

lemma totalCalorieGap_nonneg: "0 \<le> totalCalorieGap q"
  using excessFatKg_nonneg [of q] by (simp add: totalCalorieGap_def)

text \<open>
  Claim C8, as the code has it. Nothing checks the target period and there is no
  \<open>InvalidPeriod\<close> error: for a positive period the daily deficit needed is the exact
  quotient of the gap by the days and is not negative, for a negative period it is the
  exact quotient too and is not positive, and report generation returns whatever report
  the reply parses to, whatever the period.
\<close>

theorem C8_no_period_check:
  "(0 < targetPeriodWeeks q
      \<longrightarrow> dailyCalorieDeficitNeeded q * (targetPeriodWeeks q * 7) = totalCalorieGap q
          \<and> 0 \<le> dailyCalorieDeficitNeeded q)
   \<and> (targetPeriodWeeks q < 0
      \<longrightarrow> dailyCalorieDeficitNeeded q * (targetPeriodWeeks q * 7) = totalCalorieGap q
          \<and> dailyCalorieDeficitNeeded q \<le> 0)
   \<and> (tryBlock q = Yields r \<longrightarrow> generateAssessmentReport tryBlock q = Inr r)"
  using totalCalorieGap_nonneg [of q]
  by (simp add: dailyCalorieDeficitNeeded_def generateAssessmentReport_def
      divide_nonneg_pos divide_nonneg_neg)

theorem C8_witness:
  "0 < targetPeriodWeeks exampleQuiz
   \<and> dailyCalorieDeficitNeeded exampleQuiz * (targetPeriodWeeks exampleQuiz * 7)
       = totalCalorieGap exampleQuiz
   \<and> 0 \<le> dailyCalorieDeficitNeeded exampleQuiz
   \<and> targetPeriodWeeks negativePeriodQuiz < 0
   \<and> dailyCalorieDeficitNeeded negativePeriodQuiz \<le> 0
   \<and> replyWith negativePeriodReply negativePeriodQuiz = Yields negativePeriodReply
   \<and> generateAssessmentReport (replyWith negativePeriodReply) negativePeriodQuiz
       = Inr negativePeriodReply"
proof -
  have a: "0 < targetPeriodWeeks exampleQuiz" by (simp add: exampleQuiz_def)
  have b: "targetPeriodWeeks negativePeriodQuiz < 0"
    by (simp add: negativePeriodQuiz_def exampleQuiz_def)
  have c: "replyWith negativePeriodReply negativePeriodQuiz = Yields negativePeriodReply"
    by (simp add: replyWith_def)
  show ?thesis
    using a b c
      C8_no_period_check [of exampleQuiz "replyWith negativePeriodReply" negativePeriodReply]
      C8_no_period_check [of negativePeriodQuiz "replyWith negativePeriodReply"
        negativePeriodReply]
    by (simp only: simp_thms)
qed

text \<open>
  Claim C8 as written fails at a period of -8 weeks: the quotient is computed, -2750 kcal,
  and a reply that carries it is returned as the report.
\<close>

theorem C8_counterexample:
  "targetPeriodWeeks negativePeriodQuiz \<le> 0
   \<and> dailyCalorieDeficitNeeded negativePeriodQuiz = -2750
   \<and> generateAssessmentReport (replyWith negativePeriodReply) negativePeriodQuiz
       = Inr negativePeriodReply
   \<and> daily_calorie_deficit_needed (numbers negativePeriodReply)
       = dailyCalorieDeficitNeeded negativePeriodQuiz"
  by (simp add: negativePeriodQuiz_def exampleQuiz_def calc_defs
      generateAssessmentReport_def replyWith_def negativePeriodReply_def replyReport_def)

end
